theory Spec2Isabelle
  imports Main
begin

section \<open>Data model of scripts/extract_tarkov_market_maps.py\<close>

text \<open>
  An entry of \<^verbatim>\<open>MAPS\<close> is a dictionary with the two keys \<^verbatim>\<open>name\<close> and \<^verbatim>\<open>url\<close>.
\<close>

record map_info =
  name :: string
  url :: string

definition MAPS :: "map_info list" where
  "MAPS =
    [\<lparr>name = ''GroundZero'', url = ''https://tarkov-market.com/maps/ground-zero''\<rparr>,
     \<lparr>name = ''Factory'', url = ''https://tarkov-market.com/maps/factory''\<rparr>,
     \<lparr>name = ''Customs'', url = ''https://tarkov-market.com/maps/customs''\<rparr>,
     \<lparr>name = ''Woods'', url = ''https://tarkov-market.com/maps/woods''\<rparr>,
     \<lparr>name = ''Shoreline'', url = ''https://tarkov-market.com/maps/shoreline''\<rparr>,
     \<lparr>name = ''Interchange'', url = ''https://tarkov-market.com/maps/interchange''\<rparr>,
     \<lparr>name = ''Reserve'', url = ''https://tarkov-market.com/maps/reserve''\<rparr>,
     \<lparr>name = ''Lighthouse'', url = ''https://tarkov-market.com/maps/lighthouse''\<rparr>,
     \<lparr>name = ''StreetsOfTarkov'', url = ''https://tarkov-market.com/maps/streets''\<rparr>,
     \<lparr>name = ''Labs'', url = ''https://tarkov-market.com/maps/lab''\<rparr>,
     \<lparr>name = ''Labyrinth'', url = ''https://tarkov-market.com/maps/labyrinth''\<rparr>]"

text \<open>
  The exceptions the script can meet are those of its libraries: Playwright's \<^verbatim>\<open>Error\<close>
  and \<^verbatim>\<open>TimeoutError\<close>, and \<^verbatim>\<open>OSError\<close> from the file system. All three derive
  from \<^verbatim>\<open>Exception\<close>, so every \<^verbatim>\<open>except Exception\<close> clause catches them.
\<close>

datatype exn = PlaywrightError | PlaywrightTimeoutError | OSError

text \<open>
  The browser is the script's environment. A loaded document answers
  \<^verbatim>\<open>page.query_selector_all(selector)\<close> with the matching element handles in document
  order, or raises; an element handle answers \<^verbatim>\<open>evaluate("el => el.outerHTML")\<close> with
  its outer markup, or raises (a stale handle). \<open>evaluate\<close> is the outcome of the one
  \<^verbatim>\<open>page.evaluate\<close> call of the script: the outer markup of every element of
  \<^verbatim>\<open>document.querySelectorAll('svg')\<close> in document order, or an exception.

  A character of the model is one character of the markup; the script measures markup with
  Python's \<^verbatim>\<open>len\<close> and with JavaScript's \<^verbatim>\<open>length\<close>, which agree on the Basic
  Multilingual Plane, and both are \<open>length\<close> here.
\<close>

type_synonym element = "exn + string"

record dom =
  query_selector_all :: "string \<Rightarrow> exn + element list"
  evaluate :: "exn + string list"

text \<open>The calls made on the page object, in the order they are made.\<close>

datatype call = Goto string | QuerySelectorAll string | PageEvaluate

text \<open>
  \<^verbatim>\<open>open(output_path, "w")\<close> can raise before the file is touched; once the file is open
  it has been truncated, and a failing \<^verbatim>\<open>write\<close> leaves some prefix of the content.
\<close>

datatype fault = OpenFails exn | WriteFails exn nat

text \<open>
  Everything outside the script: \<^verbatim>\<open>OUTPUT_DIR\<close> and \<^verbatim>\<open>os.path.join\<close> depend on
  where and on which platform the script runs and are parameters; \<open>makedirs\<close> is the
  outcome of \<^verbatim>\<open>os.makedirs(OUTPUT_DIR, exist_ok=True)\<close>; \<open>launch\<close> that of starting
  Playwright, the browser, the context and the page; \<open>goto\<close> that of
  \<^verbatim>\<open>page.goto(url, wait_until="networkidle")\<close> followed by the settling
  \<^verbatim>\<open>wait_for_timeout(3000)\<close>, which yields the document then shown; \<open>write_fault\<close>
  says for which paths writing fails; \<open>close\<close> is the outcome of \<^verbatim>\<open>browser.close()\<close>.
  The remote site does not change during a run: \<open>goto\<close> is a function of the URL.
\<close>

record world =
  OUTPUT_DIR :: string
  path_join :: "string \<Rightarrow> string \<Rightarrow> string"
  makedirs :: "exn option"
  launch :: "exn option"
  goto :: "string \<Rightarrow> exn + dom"
  write_fault :: "string \<Rightarrow> fault option"
  close :: "exn option"

section \<open>extract_map_svg\<close>

definition svg_selectors :: "string list" where
  "svg_selectors =
    [''svg.svg-map'',
     ''.map-container svg'',
     ''.map-wrapper svg'',
     ''svg[viewBox]'',
     ''#map svg'',
     ''.leaflet-container svg'',
     ''svg'']"

text \<open>Python's truth value of \<^verbatim>\<open>svg_content\<close>: \<^verbatim>\<open>None\<close> and the empty string are false.\<close>

fun truthy :: "string option \<Rightarrow> bool" where
  "truthy None = False"
| "truthy (Some s) = (s \<noteq> [])"

text \<open>
  The inner loop \<^verbatim>\<open>for svg_element in svg_elements\<close>: it leaves with the first content
  that is true and longer than 10000 characters; an exception of \<^verbatim>\<open>evaluate\<close> leaves
  the loop as an exception.
\<close>

fun probe_elements :: "element list \<Rightarrow> exn + string option" where
  "probe_elements [] = Inr None"
| "probe_elements (Inl e # svg_elements) = Inl e"
| "probe_elements (Inr content # svg_elements) =
     (if content \<noteq> [] \<and> length content > 10000 then Inr (Some content)
      else probe_elements svg_elements)"

text \<open>The body of the \<^verbatim>\<open>try\<close> block for one selector.\<close>

definition probe_selector :: "dom \<Rightarrow> string \<Rightarrow> exn + string option" where
  "probe_selector d selector =
     (case query_selector_all d selector of
        Inl e \<Rightarrow> Inl e
      | Inr svg_elements \<Rightarrow> probe_elements svg_elements)"

definition record_call :: "call \<Rightarrow> 'a \<times> call list \<Rightarrow> 'a \<times> call list" where
  "record_call c r = (fst r, c # snd r)"

text \<open>
  The outer loop \<^verbatim>\<open>for selector in svg_selectors\<close>: \<^verbatim>\<open>except Exception: continue\<close>
  goes on with the next selector, \<^verbatim>\<open>if svg_content: break\<close> leaves the loop. The second
  component is the list of page calls made.
\<close>

fun probe_selectors :: "dom \<Rightarrow> string list \<Rightarrow> string option \<times> call list" where
  "probe_selectors d [] = (None, [])"
| "probe_selectors d (selector # selectors) =
     (case probe_selector d selector of
        Inl e \<Rightarrow> record_call (QuerySelectorAll selector) (probe_selectors d selectors)
      | Inr svg_content \<Rightarrow>
          if truthy svg_content then (svg_content, [QuerySelectorAll selector])
          else record_call (QuerySelectorAll selector) (probe_selectors d selectors))"

text \<open>
  The script evaluated in the page: \<^verbatim>\<open>largestSvg\<close> starts as \<^verbatim>\<open>null\<close> and
  \<^verbatim>\<open>maxSize\<close> as 0, and a later element replaces the current one only when
  \<^verbatim>\<open>html.length > maxSize\<close>.
\<close>

fun largest_svg_loop :: "string list \<Rightarrow> string option \<Rightarrow> nat \<Rightarrow> string option" where
  "largest_svg_loop [] largestSvg maxSize = largestSvg"
| "largest_svg_loop (html # svgs) largestSvg maxSize =
     (if length html > maxSize then largest_svg_loop svgs (Some html) (length html)
      else largest_svg_loop svgs largestSvg maxSize)"

definition js_extraction :: "string list \<Rightarrow> string option" where
  "js_extraction svgs = largest_svg_loop svgs None 0"

text \<open>
  \<^verbatim>\<open>extract_map_svg(page, map_info)\<close>: an exception of \<^verbatim>\<open>goto\<close> or of the final
  \<^verbatim>\<open>page.evaluate\<close> is not caught here and reaches the caller.
\<close>

definition extract_map_svg :: "world \<Rightarrow> map_info \<Rightarrow> (exn + string option) \<times> call list" where
  "extract_map_svg w m =
     (case goto w (url m) of
        Inl e \<Rightarrow> (Inl e, [Goto (url m)])
      | Inr d \<Rightarrow>
          (let probed = probe_selectors d svg_selectors;
               svg_content = fst probed;
               calls = Goto (url m) # snd probed
           in if \<not> truthy svg_content then
                (case evaluate d of
                   Inl e \<Rightarrow> (Inl e, calls @ [PageEvaluate])
                 | Inr svgs \<Rightarrow> (Inr (js_extraction svgs), calls @ [PageEvaluate]))
              else (Inr svg_content, calls)))"

section \<open>main\<close>

text \<open>Python's \<^verbatim>\<open>str.startswith\<close>.\<close>

fun startswith :: "string \<Rightarrow> string \<Rightarrow> bool" where
  "startswith s [] = True"
| "startswith [] (p # ps) = False"
| "startswith (c # cs) (p # ps) = (c = p \<and> startswith cs ps)"

definition XML_HEADER :: string where
  \<open>XML_HEADER = ''<?xml version="1.0" encoding="UTF-8"?>'' @ [CHR 0x0A]\<close>

definition add_svg_header :: "string \<Rightarrow> string" where
  "add_svg_header svg_content =
     (if \<not> startswith svg_content ''<?xml'' then XML_HEADER @ svg_content else svg_content)"

definition output_path :: "world \<Rightarrow> map_info \<Rightarrow> string" where
  "output_path w m = path_join w (OUTPUT_DIR w) (name m @ ''.svg'')"

text \<open>
  \<^verbatim>\<open>with open(output_path, "w", encoding="utf-8") as f: f.write(svg_content)\<close> on a file
  system that maps a path to the content of the file there. Mode \<^verbatim>\<open>"w"\<close> replaces
  whatever the file held.
\<close>

definition write_file ::
  "world \<Rightarrow> string \<Rightarrow> string \<Rightarrow> (string \<rightharpoonup> string) \<Rightarrow> exn option \<times> (string \<rightharpoonup> string)" where
  "write_file w path content fs =
     (case write_fault w path of
        None \<Rightarrow> (None, fs(path \<mapsto> content))
      | Some (OpenFails e) \<Rightarrow> (Some e, fs)
      | Some (WriteFails e n) \<Rightarrow> (Some e, fs(path \<mapsto> take n content)))"

record run_state =
  extracted_count :: nat
  failed_maps :: "string list"
  files :: "string \<rightharpoonup> string"

text \<open>
  The body of \<^verbatim>\<open>for map_info in MAPS\<close>. The \<^verbatim>\<open>try\<close> block holds the extraction, the
  header and the write; \<^verbatim>\<open>except Exception\<close> appends the name to \<^verbatim>\<open>failed_maps\<close>.
\<close>

definition main_step :: "world \<Rightarrow> run_state \<Rightarrow> map_info \<Rightarrow> run_state" where
  "main_step w st m =
     (case fst (extract_map_svg w m) of
        Inl e \<Rightarrow> st\<lparr>failed_maps := failed_maps st @ [name m]\<rparr>
      | Inr svg_content \<Rightarrow>
          (if truthy svg_content then
             (case svg_content of
                None \<Rightarrow> st\<lparr>failed_maps := failed_maps st @ [name m]\<rparr>
              | Some content \<Rightarrow>
                  (case write_file w (output_path w m) (add_svg_header content) (files st) of
                     (Some e, fs) \<Rightarrow> st\<lparr>failed_maps := failed_maps st @ [name m], files := fs\<rparr>
                   | (None, fs) \<Rightarrow> st\<lparr>extracted_count := extracted_count st + 1, files := fs\<rparr>))
           else st\<lparr>failed_maps := failed_maps st @ [name m]\<rparr>))"

text \<open>What the final block prints: the count, the total and the failed names.\<close>

record summary =
  successes :: nat
  total :: nat
  failures :: "string list"

text \<open>
  \<^verbatim>\<open>main\<close> over a list of targets; the script runs it on \<^verbatim>\<open>MAPS\<close>.
  \<^verbatim>\<open>os.makedirs\<close>, the browser start and \<^verbatim>\<open>browser.close()\<close> are outside every
  \<^verbatim>\<open>try\<close>: their exceptions end the run. Of the console output only the values of the
  final summary are kept; the directories that \<^verbatim>\<open>os.makedirs\<close> creates are not part of
  the file map.
\<close>

definition main_for ::
  "world \<Rightarrow> map_info list \<Rightarrow> (string \<rightharpoonup> string) \<Rightarrow> (exn + summary) \<times> (string \<rightharpoonup> string)" where
  "main_for w targets fs =
     (case makedirs w of
        Some e \<Rightarrow> (Inl e, fs)
      | None \<Rightarrow>
          (case launch w of
             Some e \<Rightarrow> (Inl e, fs)
           | None \<Rightarrow>
               (let st = foldl (main_step w)
                           \<lparr>extracted_count = 0, failed_maps = [], files = fs\<rparr> targets
                in case close w of
                     Some e \<Rightarrow> (Inl e, files st)
                   | None \<Rightarrow>
                       (Inr \<lparr>successes = extracted_count st, total = length targets,
                             failures = failed_maps st\<rparr>,
                        files st))))"

definition main :: "world \<Rightarrow> (string \<rightharpoonup> string) \<Rightarrow> (exn + summary) \<times> (string \<rightharpoonup> string)" where
  "main w fs = main_for w MAPS fs"

section \<open>Notions used to state the properties\<close>

text \<open>The size test of the probing loop.\<close>

definition above_threshold :: "string \<Rightarrow> bool" where
  "above_threshold content = (length content > 10000)"

text \<open>
  The markup of the elements matched by a selector, in document order, as far as the
  probing loop can get: up to the first element whose evaluation raises, and nothing when
  the query itself raises.
\<close>

fun matches_before_raise :: "element list \<Rightarrow> string list" where
  "matches_before_raise [] = []"
| "matches_before_raise (Inl e # rest) = []"
| "matches_before_raise (Inr content # rest) = content # matches_before_raise rest"

definition serialized :: "dom \<Rightarrow> string \<Rightarrow> string list" where
  "serialized d selector =
     (case query_selector_all d selector of
        Inl e \<Rightarrow> []
      | Inr svg_elements \<Rightarrow> matches_before_raise svg_elements)"

definition accepted :: "dom \<Rightarrow> string \<Rightarrow> string option" where
  "accepted d selector = List.find above_threshold (serialized d selector)"

text \<open>
  A target counts as a success when its extraction returns markup and the file is written.
\<close>

definition target_succeeds :: "world \<Rightarrow> map_info \<Rightarrow> bool" where
  "target_succeeds w m =
     (case fst (extract_map_svg w m) of
        Inl e \<Rightarrow> False
      | Inr None \<Rightarrow> False
      | Inr (Some content) \<Rightarrow> write_fault w (output_path w m) = None)"

text \<open>What one target, and a list of targets, write to an empty file system.\<close>

definition written :: "world \<Rightarrow> map_info \<Rightarrow> (string \<rightharpoonup> string)" where
  "written w m =
     files (main_step w \<lparr>extracted_count = 0, failed_maps = [], files = Map.empty\<rparr> m)"

fun all_written :: "world \<Rightarrow> map_info list \<Rightarrow> (string \<rightharpoonup> string)" where
  "all_written w [] = Map.empty"
| "all_written w (m # ms) = written w m ++ all_written w ms"

text \<open>
  The number of places of a string where a pattern starts; with the pattern \<^verbatim>\<open><?xml\<close>,
  the number of XML declarations of a file.
\<close>

fun count_occurrences :: "string \<Rightarrow> string \<Rightarrow> nat" where
  "count_occurrences p [] = (if startswith [] p then 1 else 0)"
| "count_occurrences p (c # cs) =
     (if startswith (c # cs) p then 1 else 0) + count_occurrences p cs"

definition xml_declarations :: "string \<Rightarrow> nat" where
  "xml_declarations s = count_occurrences ''<?xml'' s"

section \<open>Example pages and environments\<close>

text \<open>A page whose only graphic element is a small icon, and a page with none.\<close>

definition icon_page :: dom where
  "icon_page =
     \<lparr>query_selector_all =
        (\<lambda>selector. if selector = ''svg'' then Inr [Inr ''<svg></svg>''] else Inr []),
      evaluate = Inr [''<svg></svg>'']\<rparr>"

definition empty_page :: dom where
  "empty_page = \<lparr>query_selector_all = (\<lambda>selector. Inr []), evaluate = Inr []\<rparr>"

text \<open>An environment where nothing fails and every URL shows the icon page.\<close>

definition quiet_world :: world where
  "quiet_world =
     \<lparr>OUTPUT_DIR = ''Maps'', path_join = (\<lambda>a b. a @ ''/'' @ b), makedirs = None,
      launch = None, goto = (\<lambda>u. Inr icon_page), write_fault = (\<lambda>p. None), close = None\<rparr>"



text \<open>A page whose graphic element serializes to markup that begins with two declarations.\<close>

definition twice_declared :: string where
  "twice_declared = XML_HEADER @ XML_HEADER @ ''<svg></svg>''"

definition twice_declared_page :: dom where
  "twice_declared_page =
     \<lparr>query_selector_all =
        (\<lambda>selector. if selector = ''svg'' then Inr [Inr twice_declared] else Inr []),
      evaluate = Inr [twice_declared]\<rparr>"

definition twice_declared_world :: world where
  "twice_declared_world = quiet_world\<lparr>goto := (\<lambda>u. Inr twice_declared_page)\<rparr>"



text \<open>A page with four small graphic elements, the second and third of the same length.\<close>

definition tie_svgs :: "string list" where
  "tie_svgs = [''<svg>a</svg>'', ''<svg>bb</svg>'', ''<svg>cc</svg>'', ''<svg></svg>'']"

definition tie_page :: dom where
  "tie_page =
     \<lparr>query_selector_all =
        (\<lambda>selector. if selector = ''svg'' then Inr (map Inr tie_svgs) else Inr []),
      evaluate = Inr tie_svgs\<rparr>"

definition tie_world :: world where
  "tie_world = quiet_world\<lparr>goto := (\<lambda>u. Inr tie_page)\<rparr>"

text \<open>An environment where the navigation to the second target times out.\<close>

definition factory_down_world :: world where
  "factory_down_world =
     quiet_world\<lparr>goto :=
       (\<lambda>u. if u = ''https://tarkov-market.com/maps/factory'' then Inl PlaywrightTimeoutError
            else Inr icon_page)\<rparr>"

text \<open>
  An environment with three failures of three kinds: a navigation that times out, a page
  without graphic elements, and a write that breaks off.
\<close>

definition mixed_world :: world where
  "mixed_world =
     quiet_world\<lparr>goto :=
       (\<lambda>u. if u = ''https://tarkov-market.com/maps/factory'' then Inl PlaywrightTimeoutError
            else if u = ''https://tarkov-market.com/maps/woods'' then Inr empty_page
            else Inr icon_page),
      write_fault :=
       (\<lambda>p. if p = ''Maps/Labs.svg'' then Some (WriteFails OSError 5) else None)\<rparr>"

section \<open>The whole-document pass\<close>

lemma loop_keeps:
  "\<forall>x\<in>set svgs. length x \<le> m \<Longrightarrow> largest_svg_loop svgs best m = best"
  by (induction svgs arbitrary: best m) auto

lemma loop_first_max:
  "\<forall>x\<in>set pre. length x < length h \<Longrightarrow> \<forall>x\<in>set post. length x \<le> length h \<Longrightarrow>
   m < length h \<Longrightarrow> largest_svg_loop (pre @ h # post) best m = Some h"
  by (induction pre arbitrary: best m) (auto simp: loop_keeps)

lemma loop_None_iff:
  "largest_svg_loop svgs best m = None \<longleftrightarrow> best = None \<and> (\<forall>x\<in>set svgs. length x \<le> m)"
  by (induction svgs arbitrary: best m) auto

lemma loop_mem:
  "largest_svg_loop svgs best m = Some h \<Longrightarrow> best = Some h \<or> h \<in> set svgs"
  by (induction svgs arbitrary: best m) (auto split: if_splits)

lemma loop_max:
  "largest_svg_loop svgs best m = Some h \<Longrightarrow> (\<forall>b. best = Some b \<longrightarrow> length b = m) \<Longrightarrow>
   m \<le> length h \<and> (\<forall>x\<in>set svgs. length x \<le> length h)"
proof (induction svgs arbitrary: best m)
  case Nil
  then show ?case by simp
next
  case (Cons x xs)
  show ?case
  proof (cases "m < length x")
    case True
    with Cons.prems have "largest_svg_loop xs (Some x) (length x) = Some h" by simp
    from Cons.IH [OF this]
    have "length x \<le> length h \<and> (\<forall>y\<in>set xs. length y \<le> length h)" by simp
    with True show ?thesis by auto
  next
    case False
    with Cons.prems have "largest_svg_loop xs best m = Some h" by simp
    from Cons.IH [OF this Cons.prems(2)]
    have "m \<le> length h \<and> (\<forall>y\<in>set xs. length y \<le> length h)" .
    with False show ?thesis by auto
  qed
qed

lemma js_extraction_mem: "js_extraction svgs = Some c \<Longrightarrow> c \<in> set svgs"
  unfolding js_extraction_def by (auto dest: loop_mem)

lemma js_extraction_max:
  "js_extraction svgs = Some c \<Longrightarrow> \<forall>x\<in>set svgs. length x \<le> length c"
proof -
  assume "js_extraction svgs = Some c"
  then have "0 \<le> length c \<and> (\<forall>x\<in>set svgs. length x \<le> length c)"
    unfolding js_extraction_def by (rule loop_max) simp
  then show ?thesis by simp
qed

lemma js_extraction_None_iff: "js_extraction svgs = None \<longleftrightarrow> (\<forall>x\<in>set svgs. x = [])"
  by (simp add: js_extraction_def loop_None_iff)

lemma js_extraction_nonempty: "js_extraction svgs = Some c \<Longrightarrow> c \<noteq> []"
proof
  assume a: "js_extraction svgs = Some c" and e: "c = []"
  from a have "\<forall>x\<in>set svgs. length x \<le> length c" by (rule js_extraction_max)
  with e have "\<forall>x\<in>set svgs. x = []" by simp
  then have "js_extraction svgs = None" by (simp add: js_extraction_None_iff)
  with a show False by simp
qed

section \<open>Selector probing\<close>

lemma find_append_option:
  "List.find P (xs @ ys) = (case List.find P xs of None \<Rightarrow> List.find P ys | Some x \<Rightarrow> Some x)"
  by (induction xs) auto

lemma probe_elements_find:
  "(case probe_elements els of Inl e \<Rightarrow> None | Inr r \<Rightarrow> r) =
     List.find above_threshold (matches_before_raise els)"
  by (induction els rule: probe_elements.induct) (auto simp: above_threshold_def)

lemma probe_elements_above:
  "probe_elements els = Inr (Some c) \<Longrightarrow> length c > 10000"
  by (induction els rule: probe_elements.induct) (auto split: if_splits)

lemma probe_selector_accepted:
  "(case probe_selector d selector of Inl e \<Rightarrow> None | Inr r \<Rightarrow> r) = accepted d selector"
proof (cases "query_selector_all d selector")
  case (Inl e)
  then show ?thesis by (simp add: probe_selector_def accepted_def serialized_def)
next
  case (Inr els)
  with probe_elements_find [of els] show ?thesis
    by (simp add: probe_selector_def accepted_def serialized_def)
qed

lemma probe_selector_above:
  "probe_selector d selector = Inr (Some c) \<Longrightarrow> length c > 10000"
  by (auto simp: probe_selector_def probe_elements_above split: sum.splits)

lemma probe_selectors_result:
  "fst (probe_selectors d selectors) =
     List.find above_threshold (concat (map (serialized d) selectors))"
proof (induction selectors)
  case Nil
  then show ?case by simp
next
  case (Cons s ss)
  have acc: "(case probe_selector d s of Inl e \<Rightarrow> None | Inr r \<Rightarrow> r) =
               List.find above_threshold (serialized d s)"
    using probe_selector_accepted [of d s] by (simp add: accepted_def)
  show ?case
  proof (cases "probe_selector d s")
    case (Inl e)
    with acc Cons show ?thesis by (simp add: find_append_option record_call_def)
  next
    case (Inr r)
    show ?thesis
    proof (cases r)
      case None
      with Inr acc Cons show ?thesis by (simp add: find_append_option record_call_def)
    next
      case (Some c)
      with Inr have "length c > 10000" by (simp add: probe_selector_above)
      then have ne: "c \<noteq> []" by auto
      from Some Inr acc have "List.find above_threshold (serialized d s) = Some c" by simp
      with ne Some Inr show ?thesis by (simp add: find_append_option)
    qed
  qed
qed



lemma probe_selectors_calls_all:
  "fst (probe_selectors d selectors) = None \<Longrightarrow>
   snd (probe_selectors d selectors) = map QuerySelectorAll selectors"
  by (induction selectors) (auto simp: record_call_def split: sum.splits if_splits)

lemma probe_selectors_above:
  "fst (probe_selectors d selectors) = Some c \<Longrightarrow> length c > 10000"
  by (induction selectors)
     (auto simp: record_call_def probe_selector_above split: sum.splits if_splits)


lemma probe_selectors_none:
  "\<forall>selector\<in>set selectors. \<forall>content\<in>set (serialized d selector). length content \<le> 10000 \<Longrightarrow>
   fst (probe_selectors d selectors) = None"
  by (fastforce simp: probe_selectors_result find_None_iff above_threshold_def)

lemma extract_map_svg_fallback:
  "goto w (url m) = Inr d \<Longrightarrow> fst (probe_selectors d svg_selectors) = None \<Longrightarrow>
   evaluate d = Inr svgs \<Longrightarrow>
   extract_map_svg w m =
     (Inr (js_extraction svgs),
      Goto (url m) # map QuerySelectorAll svg_selectors @ [PageEvaluate])"
  by (simp add: extract_map_svg_def Let_def probe_selectors_calls_all)

lemma extract_map_svg_nonempty:
  "fst (extract_map_svg w m) = Inr (Some c) \<Longrightarrow> c \<noteq> []"
  by (auto simp: extract_map_svg_def Let_def js_extraction_nonempty
           split: sum.splits if_splits option.splits)


section \<open>The loop over the targets\<close>

lemma main_step_count:
  "extracted_count (main_step w st m) =
     extracted_count st + (if target_succeeds w m then 1 else 0)"
  using extract_map_svg_nonempty [of w m]
  by (auto simp: main_step_def target_succeeds_def write_file_def
           split: sum.splits option.splits fault.splits)

lemma main_step_failed:
  "failed_maps (main_step w st m) =
     failed_maps st @ (if target_succeeds w m then [] else [name m])"
  using extract_map_svg_nonempty [of w m]
  by (auto simp: main_step_def target_succeeds_def write_file_def
           split: sum.splits option.splits fault.splits)

lemma main_loop_count:
  "extracted_count (foldl (main_step w) st targets) =
     extracted_count st + length (filter (target_succeeds w) targets)"
  by (induction targets arbitrary: st) (simp_all add: main_step_count)

lemma main_loop_failed:
  "failed_maps (foldl (main_step w) st targets) =
     failed_maps st @ map name (filter (\<lambda>m. \<not> target_succeeds w m) targets)"
  by (induction targets arbitrary: st) (simp_all add: main_step_failed)

lemma main_step_files: "files (main_step w st m) = files st ++ written w m"
  by (auto simp: main_step_def written_def write_file_def
           split: sum.splits option.splits fault.splits)

lemma main_loop_files:
  "files (foldl (main_step w) st targets) = files st ++ all_written w targets"
  by (induction targets arbitrary: st) (simp_all add: main_step_files)

lemma map_add_twice: "(fs ++ g) ++ g = fs ++ (g :: 'a \<rightharpoonup> 'b)"
  by (rule ext) (simp add: map_add_def split: option.splits)

lemma main_for_summary:
  "makedirs w = None \<Longrightarrow> launch w = None \<Longrightarrow> close w = None \<Longrightarrow>
   fst (main_for w targets fs) =
     Inr \<lparr>successes = length (filter (target_succeeds w) targets), total = length targets,
          failures = map name (filter (\<lambda>m. \<not> target_succeeds w m) targets)\<rparr>"
  by (simp add: main_for_def Let_def main_loop_count main_loop_failed)

lemma main_for_again:
  "main_for w targets (snd (main_for w targets fs)) = main_for w targets fs"
  by (simp add: main_for_def Let_def main_loop_files main_loop_count main_loop_failed
        map_add_twice split: option.splits)

lemma main_step_written:
  "fst (extract_map_svg w m) = Inr (Some content) \<Longrightarrow> write_fault w (output_path w m) = None \<Longrightarrow>
   files (main_step w st m) = (files st)(output_path w m \<mapsto> add_svg_header content)"
  using extract_map_svg_nonempty [of w m content]
  by (simp add: main_step_def write_file_def)

section \<open>The header\<close>

lemma startswith_header: "startswith (XML_HEADER @ s) ''<?xml''"
  by (simp add: XML_HEADER_def)

lemma xml_declarations_header: "xml_declarations (XML_HEADER @ s) = Suc (xml_declarations s)"
  by (simp add: XML_HEADER_def xml_declarations_def)

lemma startswith_counted: "startswith s ''<?xml'' \<Longrightarrow> 0 < xml_declarations s"
  by (cases s) (simp_all add: xml_declarations_def)

section \<open>Example runs\<close>

lemma icon_page_probe:
  "probe_selectors icon_page svg_selectors = (None, map QuerySelectorAll svg_selectors)"
  by (simp add: svg_selectors_def icon_page_def probe_selector_def record_call_def)

lemma icon_page_extract:
  "goto w (url m) = Inr icon_page \<Longrightarrow> fst (extract_map_svg w m) = Inr (Some ''<svg></svg>'')"
  by (simp add: extract_map_svg_def icon_page_probe Let_def)
     (simp add: icon_page_def js_extraction_def)

lemma empty_page_extract:
  "goto w (url m) = Inr empty_page \<Longrightarrow> fst (extract_map_svg w m) = Inr None"
  by (simp add: extract_map_svg_def Let_def svg_selectors_def probe_selector_def record_call_def
        empty_page_def js_extraction_def)

lemma twice_declared_extract:
  "goto w (url m) = Inr twice_declared_page \<Longrightarrow>
   fst (extract_map_svg w m) = Inr (Some twice_declared)"
  by (simp add: extract_map_svg_def Let_def svg_selectors_def probe_selector_def record_call_def
        twice_declared_page_def js_extraction_def twice_declared_def XML_HEADER_def)

lemma goto_error_extract:
  "goto w (url m) = Inl e \<Longrightarrow> fst (extract_map_svg w m) = Inl e"
  by (simp add: extract_map_svg_def)

lemma length_MAPS: "length MAPS = 11"
  by (simp add: MAPS_def)

lemma twice_declared_main_step:
  "goto w (url m) = Inr twice_declared_page \<Longrightarrow> write_fault w (output_path w m) = None \<Longrightarrow>
   files (main_step w st m) = (files st)(output_path w m \<mapsto> twice_declared)"
proof -
  assume g: "goto w (url m) = Inr twice_declared_page" and f: "write_fault w (output_path w m) = None"
  have s: "startswith twice_declared ''<?xml''"
    by (simp add: twice_declared_def startswith_header)
  from twice_declared_extract [OF g] f have
    "files (main_step w st m) = (files st)(output_path w m \<mapsto> add_svg_header twice_declared)"
    by (rule main_step_written)
  with s show ?thesis by (simp add: add_svg_header_def)
qed

section \<open>Properties of the extraction\<close>



text \<open>
  Claim C4. When no selector probe accepts anything (every selector matched no element, or
  every match it could serialize had at most 10000 characters), all selectors have been
  queried and the whole-document pass runs. It returns an element of the document of
  maximal serialized length, whatever that length is, and it returns nothing only if the
  document has no graphic element at all. The outer markup of an element is never empty
  (it holds at least the element's own tags), which is the last assumption.
\<close>

theorem fallback_returns_largest:
  assumes "goto w (url m) = Inr d"
    and "\<forall>selector\<in>set svg_selectors. \<forall>content\<in>set (serialized d selector). length content \<le> 10000"
    and "evaluate d = Inr svgs"
    and "[] \<notin> set svgs"
  shows "extract_map_svg w m =
           (Inr (js_extraction svgs),
            Goto (url m) # map QuerySelectorAll svg_selectors @ [PageEvaluate]) \<and>
         (js_extraction svgs = None \<longleftrightarrow> svgs = []) \<and>
         (\<forall>c. js_extraction svgs = Some c \<longrightarrow>
            c \<in> set svgs \<and> (\<forall>x\<in>set svgs. length x \<le> length c))"
proof -
  from assms(2) have "fst (probe_selectors d svg_selectors) = None"
    by (rule probe_selectors_none)
  with assms(1,3) have 1: "extract_map_svg w m =
           (Inr (js_extraction svgs),
            Goto (url m) # map QuerySelectorAll svg_selectors @ [PageEvaluate])"
    by (simp add: extract_map_svg_fallback)
  from assms(4) have 2: "js_extraction svgs = None \<longleftrightarrow> svgs = []"
    by (cases svgs) (auto simp: js_extraction_None_iff)
  have 3: "\<forall>c. js_extraction svgs = Some c \<longrightarrow>
            c \<in> set svgs \<and> (\<forall>x\<in>set svgs. length x \<le> length c)"
    using js_extraction_mem js_extraction_max by blast
  from 1 2 3 show ?thesis by blast
qed

theorem fallback_returns_largest_witness:
  "fst (extract_map_svg tie_world \<lparr>name = ''Woods'', url = ''https://tarkov-market.com/maps/woods''\<rparr>)
     = Inr (Some ''<svg>bb</svg>'') \<and>
   fst (extract_map_svg (quiet_world\<lparr>goto := (\<lambda>u. Inr empty_page)\<rparr>)
        \<lparr>name = ''Woods'', url = ''https://tarkov-market.com/maps/woods''\<rparr>) = Inr None"
proof -
  let ?m = "\<lparr>name = ''Woods'', url = ''https://tarkov-market.com/maps/woods''\<rparr>"
  have a: "fst (extract_map_svg tie_world ?m) = Inr (js_extraction tie_svgs)"
    using fallback_returns_largest [of tie_world ?m tie_page tie_svgs]
    by (simp add: tie_world_def quiet_world_def tie_page_def tie_svgs_def serialized_def
          svg_selectors_def)
  have b: "fst (extract_map_svg (quiet_world\<lparr>goto := (\<lambda>u. Inr empty_page)\<rparr>) ?m) = Inr (js_extraction [])"
    using fallback_returns_largest [of "quiet_world\<lparr>goto := (\<lambda>u. Inr empty_page)\<rparr>" ?m empty_page "[]"]
    by (simp add: quiet_world_def empty_page_def serialized_def svg_selectors_def)
  from a b show ?thesis by (simp add: js_extraction_def tie_svgs_def)
qed





text \<open>
  Claim C10. In the whole-document pass ties are broken by document order: an element that
  is strictly longer than every element before it and at least as long as every element
  after it is the one returned.
\<close>

theorem fallback_tie_first_wins:
  assumes "svgs = pre @ h # post"
    and "\<forall>x\<in>set pre. length x < length h"
    and "\<forall>x\<in>set post. length x \<le> length h"
    and "h \<noteq> []"
  shows "js_extraction svgs = Some h"
  using assms by (simp add: js_extraction_def loop_first_max)

theorem fallback_tie_first_wins_witness:
  "js_extraction [''<svg>a</svg>'', ''<svg>bb</svg>'', ''<svg>cc</svg>'', ''<svg></svg>'']
     = Some ''<svg>bb</svg>''"
  using fallback_tie_first_wins
    [of "[''<svg>a</svg>'', ''<svg>bb</svg>'', ''<svg>cc</svg>'', ''<svg></svg>'']"
        "[''<svg>a</svg>'']" "''<svg>bb</svg>''" "[''<svg>cc</svg>'', ''<svg></svg>'']"]
  by simp

section \<open>Properties of the run\<close>




text \<open>
  Claim C2, as stated: the content written starts with an XML declaration line exactly
  once, also when the raw markup held two. It fails: markup that begins with
  \<^verbatim>\<open><?xml\<close> is written as it is. Here the extraction returns markup that begins
  with two declaration lines, and the file written holds both.
\<close>

theorem header_counterexample:
  "fst (extract_map_svg twice_declared_world
        \<lparr>name = ''GroundZero'', url = ''https://tarkov-market.com/maps/ground-zero''\<rparr>) =
     Inr (Some (XML_HEADER @ XML_HEADER @ ''<svg></svg>'')) \<and>
   snd (main twice_declared_world Map.empty) ''Maps/GroundZero.svg'' =
     Some (XML_HEADER @ XML_HEADER @ ''<svg></svg>'') \<and>
   xml_declarations (XML_HEADER @ XML_HEADER @ ''<svg></svg>'') = 2"
proof -
  have g: "\<And>m. goto twice_declared_world (url m) = Inr twice_declared_page"
    by (simp add: twice_declared_world_def quiet_world_def)
  have f: "\<And>p. write_fault twice_declared_world p = None"
    by (simp add: twice_declared_world_def quiet_world_def)
  have p: "\<And>m. output_path twice_declared_world m = ''Maps/'' @ name m @ ''.svg''"
    by (simp add: output_path_def twice_declared_world_def quiet_world_def)
  have k: "makedirs twice_declared_world = None" "launch twice_declared_world = None"
      "close twice_declared_world = None"
    by (simp_all add: twice_declared_world_def quiet_world_def)
  have 1: "snd (main twice_declared_world Map.empty) ''Maps/GroundZero.svg'' = Some twice_declared"
    by (simp add: main_def main_for_def MAPS_def k twice_declared_main_step [OF g f] p Let_def)
  have 2: "xml_declarations (XML_HEADER @ XML_HEADER @ ''<svg></svg>'') = 2"
    by (simp add: xml_declarations_header) (simp add: xml_declarations_def)
  from 1 2 twice_declared_extract [OF g] show ?thesis by (simp add: twice_declared_def)
qed

text \<open>
  Claim C2, amended. The content written always begins with \<^verbatim>\<open><?xml\<close>. The
  standard declaration line is put in front exactly when the raw markup does not begin
  with \<^verbatim>\<open><?xml\<close>; markup that does is written unchanged. So the file holds as many
  declarations as the markup in the second case and one more in the first: exactly one when
  the markup held none, or held one at its start. The file of a target whose extraction
  returned markup and whose write did not fail holds that content.
\<close>

theorem header_added_when_missing:
  "startswith (add_svg_header content) ''<?xml'' \<and>
   add_svg_header content =
     (if startswith content ''<?xml'' then content else XML_HEADER @ content) \<and>
   xml_declarations (add_svg_header content) =
     (if startswith content ''<?xml'' then xml_declarations content
      else Suc (xml_declarations content)) \<and>
   (xml_declarations content = 0 \<or>
    startswith content ''<?xml'' \<and> xml_declarations content = 1 \<longrightarrow>
      xml_declarations (add_svg_header content) = 1) \<and>
   (fst (extract_map_svg w m) = Inr (Some content) \<and> write_fault w (output_path w m) = None \<longrightarrow>
      files (main_step w st m) (output_path w m) = Some (add_svg_header content))"
  using startswith_counted [of content]
  by (auto simp: add_svg_header_def startswith_header xml_declarations_header main_step_written)

theorem header_added_when_missing_witness:
  "files (main_step quiet_world \<lparr>extracted_count = 0, failed_maps = [], files = Map.empty\<rparr>
       \<lparr>name = ''GroundZero'', url = ''https://tarkov-market.com/maps/ground-zero''\<rparr>)
     ''Maps/GroundZero.svg'' = Some (XML_HEADER @ ''<svg></svg>'') \<and>
   xml_declarations (add_svg_header ''<svg></svg>'') = 1 \<and>
   add_svg_header (XML_HEADER @ ''<svg></svg>'') = XML_HEADER @ ''<svg></svg>''"
proof -
  let ?m = "\<lparr>name = ''GroundZero'', url = ''https://tarkov-market.com/maps/ground-zero''\<rparr>"
  let ?st = "\<lparr>extracted_count = 0, failed_maps = [], files = Map.empty\<rparr>"
  have x: "fst (extract_map_svg quiet_world ?m) = Inr (Some ''<svg></svg>'')"
    by (rule icon_page_extract) (simp add: quiet_world_def)
  have p: "output_path quiet_world ?m = ''Maps/GroundZero.svg''"
    by (simp add: output_path_def quiet_world_def)
  have f: "write_fault quiet_world ''Maps/GroundZero.svg'' = None"
    by (simp add: quiet_world_def)
  have n: "xml_declarations ''<svg></svg>'' = 0"
    by (simp add: xml_declarations_def)
  from header_added_when_missing [of "''<svg></svg>''" quiet_world ?m ?st] x p f n
  have 1: "files (main_step quiet_world ?st ?m) ''Maps/GroundZero.svg'' =
             Some (XML_HEADER @ ''<svg></svg>'') \<and>
           xml_declarations (add_svg_header ''<svg></svg>'') = 1"
    by (simp add: xml_declarations_header)
  from header_added_when_missing [of "XML_HEADER @ ''<svg></svg>''" quiet_world ?m ?st]
  have 2: "add_svg_header (XML_HEADER @ ''<svg></svg>'') = XML_HEADER @ ''<svg></svg>''"
    by (simp add: startswith_header)
  from 1 2 show ?thesis by simp
qed

text \<open>
  Claim C5. In a run over N targets where one target k fails to extract (no result, or a
  navigation or evaluation error that reached the loop) and every other target succeeds
  (its extraction returns markup and its file is written), the run goes on after k and its
  summary reports N - 1 successes out of N and the one failure entry, the name of k.
\<close>

theorem one_failure_is_isolated:
  assumes "makedirs w = None" and "launch w = None" and "close w = None"
    and "targets = before @ k # after"
    and "\<forall>m\<in>set before \<union> set after.
           (\<exists>content. fst (extract_map_svg w m) = Inr (Some content)) \<and>
           write_fault w (output_path w m) = None"
    and "fst (extract_map_svg w k) = Inr None \<or> (\<exists>e. fst (extract_map_svg w k) = Inl e)"
  shows "fst (main_for w targets fs) =
           Inr \<lparr>successes = length targets - 1, total = length targets, failures = [name k]\<rparr>"
proof -
  have ok: "\<forall>m\<in>set before \<union> set after. target_succeeds w m"
  proof
    fix m
    assume "m \<in> set before \<union> set after"
    with assms(5) obtain content where "fst (extract_map_svg w m) = Inr (Some content)"
      and "write_fault w (output_path w m) = None"
      by blast
    then show "target_succeeds w m" by (simp add: target_succeeds_def)
  qed
  from assms(6) have bad: "\<not> target_succeeds w k"
    by (auto simp: target_succeeds_def)
  from ok have "filter (target_succeeds w) before = before"
    and "filter (target_succeeds w) after = after"
    and "filter (\<lambda>m. \<not> target_succeeds w m) before = []"
    and "filter (\<lambda>m. \<not> target_succeeds w m) after = []"
    by (auto simp: filter_empty_conv)
  with bad assms(4) have
    "length (filter (target_succeeds w) targets) = length targets - 1"
    "map name (filter (\<lambda>m. \<not> target_succeeds w m) targets) = [name k]"
    by simp_all
  with main_for_summary [OF assms(1-3), of targets fs] show ?thesis by simp
qed

theorem one_failure_is_isolated_witness:
  "fst (extract_map_svg factory_down_world
          \<lparr>name = ''Factory'', url = ''https://tarkov-market.com/maps/factory''\<rparr>) =
     Inl PlaywrightTimeoutError \<and>
   fst (main factory_down_world Map.empty) =
     Inr \<lparr>successes = 10, total = 11, failures = [''Factory'']\<rparr>"
proof -
  let ?k = "\<lparr>name = ''Factory'', url = ''https://tarkov-market.com/maps/factory''\<rparr>"
  have k: "fst (extract_map_svg factory_down_world ?k) = Inl PlaywrightTimeoutError"
    by (rule goto_error_extract) (simp add: factory_down_world_def)
  have others: "\<forall>m\<in>set (take 1 MAPS) \<union> set (drop 2 MAPS).
           (\<exists>content. fst (extract_map_svg factory_down_world m) = Inr (Some content)) \<and>
           write_fault factory_down_world (output_path factory_down_world m) = None"
    by (simp add: MAPS_def icon_page_extract factory_down_world_def quiet_world_def)
  have split: "MAPS = take 1 MAPS @ ?k # drop 2 MAPS"
    by (simp add: MAPS_def)
  have env: "makedirs factory_down_world = None" "launch factory_down_world = None"
    "close factory_down_world = None"
    by (simp_all add: factory_down_world_def quiet_world_def)
  from one_failure_is_isolated [OF env split others, of Map.empty] k
  show ?thesis by (simp add: main_def length_MAPS)
qed

text \<open>
  Claim C8. A second run against the same pages, started on the files the first run left,
  ends with the same files (and the same summary): a write replaces whatever the file
  held, it never appends to it.
\<close>

theorem rerun_leaves_same_files:
  "main w (snd (main w fs)) = main w fs \<and>
   main_for w targets (snd (main_for w targets fs)) = main_for w targets fs \<and>
   (write_fault w path = None \<longrightarrow>
      write_file w path content (fs(path \<mapsto> previous)) = (None, fs(path \<mapsto> content)))"
  by (simp add: main_def main_for_again write_file_def)

theorem rerun_leaves_same_files_witness:
  "snd (main quiet_world [''Maps/Factory.svg'' \<mapsto> ''old'']) ''Maps/Factory.svg'' =
     Some (XML_HEADER @ ''<svg></svg>'') \<and>
   snd (main quiet_world (snd (main quiet_world [''Maps/Factory.svg'' \<mapsto> ''old''])))
     ''Maps/Factory.svg'' = Some (XML_HEADER @ ''<svg></svg>'') \<and>
   write_file quiet_world ''Maps/Factory.svg'' ''new'' [''Maps/Factory.svg'' \<mapsto> ''old''] =
     (None, [''Maps/Factory.svg'' \<mapsto> ''new''])"
proof -
  let ?fs = "[''Maps/Factory.svg'' \<mapsto> ''old'']"
  have 1: "snd (main quiet_world ?fs) ''Maps/Factory.svg'' = Some (XML_HEADER @ ''<svg></svg>'')"
    by (simp add: main_def main_for_def MAPS_def main_step_def icon_page_extract quiet_world_def
          write_file_def output_path_def add_svg_header_def Let_def)
  have f: "write_fault quiet_world ''Maps/Factory.svg'' = None"
    by (simp add: quiet_world_def)
  from rerun_leaves_same_files [of quiet_world ?fs MAPS] 1
  have 2: "snd (main quiet_world (snd (main quiet_world ?fs))) ''Maps/Factory.svg'' =
             Some (XML_HEADER @ ''<svg></svg>'')"
    by simp
  from rerun_leaves_same_files
         [of quiet_world Map.empty MAPS "''Maps/Factory.svg''" "''new''" "''old''"] f
  have 3: "write_file quiet_world ''Maps/Factory.svg'' ''new'' ?fs =
             (None, [''Maps/Factory.svg'' \<mapsto> ''new''])"
    by simp
  from 1 2 3 show ?thesis by simp
qed

text \<open>
  Claim C9. Every target adds exactly one outcome: after the loop the success count and
  the length of the failure list have grown by the number of targets together, and the
  failure list has grown by the names of the targets that failed, in the order of the
  target list. In the summary of a run the successes and the failures add up to the
  total, the number of targets.
\<close>

theorem every_target_counted_once:
  "extracted_count (foldl (main_step w) st targets) +
     length (failed_maps (foldl (main_step w) st targets)) =
     extracted_count st + length (failed_maps st) + length targets \<and>
   failed_maps (foldl (main_step w) st targets) =
     failed_maps st @ map name (filter (\<lambda>m. \<not> target_succeeds w m) targets) \<and>
   (makedirs w = None \<and> launch w = None \<and> close w = None \<longrightarrow>
      (\<exists>s. fst (main_for w targets fs) = Inr s \<and>
           successes s + length (failures s) = length targets \<and>
           total s = length targets \<and>
           failures s = map name (filter (\<lambda>m. \<not> target_succeeds w m) targets)))"
proof -
  have len: "length (filter (target_succeeds w) targets) +
             length (filter (\<lambda>m. \<not> target_succeeds w m) targets) = length targets"
    by (rule sum_length_filter_compl)
  then have 1: "extracted_count (foldl (main_step w) st targets) +
     length (failed_maps (foldl (main_step w) st targets)) =
     extracted_count st + length (failed_maps st) + length targets"
    by (simp add: main_loop_count main_loop_failed)
  have 2: "failed_maps (foldl (main_step w) st targets) =
     failed_maps st @ map name (filter (\<lambda>m. \<not> target_succeeds w m) targets)"
    by (rule main_loop_failed)
  from len have 3: "makedirs w = None \<and> launch w = None \<and> close w = None \<longrightarrow>
      (\<exists>s. fst (main_for w targets fs) = Inr s \<and>
           successes s + length (failures s) = length targets \<and>
           total s = length targets \<and>
           failures s = map name (filter (\<lambda>m. \<not> target_succeeds w m) targets))"
    by (simp add: main_for_summary)
  from 1 2 3 show ?thesis by blast
qed

theorem every_target_counted_once_witness:
  "\<exists>s. fst (main mixed_world Map.empty) = Inr s \<and> successes s = 8 \<and> total s = 11 \<and>
       failures s = [''Factory'', ''Woods'', ''Labs'']"
proof -
  have env: "makedirs mixed_world = None \<and> launch mixed_world = None \<and> close mixed_world = None"
    by (simp add: mixed_world_def quiet_world_def)
  have failed: "map name (filter (\<lambda>m. \<not> target_succeeds mixed_world m) MAPS) =
                  [''Factory'', ''Woods'', ''Labs'']"
    by (simp add: MAPS_def target_succeeds_def icon_page_extract empty_page_extract
          goto_error_extract mixed_world_def quiet_world_def output_path_def)
  from every_target_counted_once [of mixed_world _ MAPS Map.empty] env
  obtain s where s: "fst (main_for mixed_world MAPS Map.empty) = Inr s"
    "successes s + length (failures s) = length MAPS" "total s = length MAPS"
    "failures s = map name (filter (\<lambda>m. \<not> target_succeeds mixed_world m) MAPS)"
    by blast
  with failed have "successes s = 8" "total s = 11" "failures s = [''Factory'', ''Woods'', ''Labs'']"
    by (simp_all add: length_MAPS)
  with s(1) show ?thesis by (auto simp: main_def)
qed

end
